theory Spec2Isabelle
  imports Complex_Main
begin

section \<open>Values, dictionaries and errors\<close>

text \<open>
  The scoring core of \<^verbatim>\<open>vibe_calculator.py\<close> works on loosely typed dictionaries.
  A value stored in a player's stat dictionary is \<^verbatim>\<open>None\<close>, a number or a string.
  Python's ints and floats are both modelled by reals (\<^verbatim>\<open>/\<close> is true division). In the
  rate converter, the classifier, the builder and the composer the arithmetic is exact; in
  the league normalizer, whose result depends on how the doubles round, the floating-point
  arithmetic is a parameter of the model. An exception is a value of type \<open>error\<close>.
\<close>

datatype error = TypeError | ZeroDivisionError | NameError | KeyError

datatype pyval = PNone | Num real | Str string

type_synonym stats_dict = "string \<rightharpoonup> pyval"

text \<open>\<^verbatim>\<open>d.get(k, dflt)\<close>\<close>

definition dict_get :: "stats_dict \<Rightarrow> string \<Rightarrow> pyval \<Rightarrow> pyval" where
  "dict_get d k dflt = (case d k of None \<Rightarrow> dflt | Some v \<Rightarrow> v)"

text \<open>Truth value of an object, and \<^verbatim>\<open>a or b\<close>.\<close>

fun truthy :: "pyval \<Rightarrow> bool" where
  "truthy PNone = False"
| "truthy (Num r) = (r \<noteq> 0)"
| "truthy (Str s) = (s \<noteq> [])"

definition py_or :: "pyval \<Rightarrow> pyval \<Rightarrow> pyval" where
  "py_or a b = (if truthy a then a else b)"

text \<open>
  An operand of an arithmetic operation or of a comparison with a number: anything but
  a number raises \<^verbatim>\<open>TypeError\<close>. (The one operation that Python accepts on a string,
  \<^verbatim>\<open>s * 100\<close> and \<^verbatim>\<open>s + t\<close>, is followed at once by a division by a number,
  which raises \<^verbatim>\<open>TypeError\<close> as well.)
\<close>

fun as_num :: "pyval \<Rightarrow> error + real" where
  "as_num (Num r) = Inr r"
| "as_num PNone = Inl TypeError"
| "as_num (Str s) = Inl TypeError"

text \<open>\<^verbatim>\<open>stats_dict.get(k, 0) or 0\<close>, then used as a number.\<close>

definition get_or0 :: "stats_dict \<Rightarrow> string \<Rightarrow> pyval" where
  "get_or0 d k = py_or (dict_get d k (Num 0)) (Num 0)"

text \<open>A dictionary built by the code itself: keys in insertion order.\<close>

definition dict_index :: "(string \<times> 'a) list \<Rightarrow> string \<Rightarrow> error + 'a" where
  "dict_index d k = (case map_of d k of None \<Rightarrow> Inl KeyError | Some v \<Rightarrow> Inr v)"

section \<open>Rate converter\<close>

text \<open>
  \<^verbatim>\<open>calculate_player_possessions(minutes)\<close>:
  \<^verbatim>\<open>if not minutes or minutes <= 0: return 1\<close>, else \<^verbatim>\<open>(minutes * 100) / 240\<close>.
\<close>

definition calculate_player_possessions :: "pyval \<Rightarrow> error + real" where
  "calculate_player_possessions minutes =
     (if \<not> truthy minutes then Inr 1
      else case as_num minutes of
             Inl e \<Rightarrow> Inl e
           | Inr m \<Rightarrow> if m \<le> 0 then Inr 1 else Inr ((m * 100) / 240))"

text \<open>
  The entries of the dictionary literal \<^verbatim>\<open>{'PTS100': (stats_dict.get('PTS', 0) or 0) * 100 / player_poss, ...}\<close>,
  evaluated in order; the first operand that is not a number raises.
\<close>

fun rate_entries :: "stats_dict \<Rightarrow> real \<Rightarrow> (string \<times> string) list \<Rightarrow> error + (string \<times> real) list" where
  "rate_entries d poss [] = Inr []"
| "rate_entries d poss ((out, k) # ks) =
     (case as_num (get_or0 d k) of
        Inl e \<Rightarrow> Inl e
      | Inr v \<Rightarrow>
          (case rate_entries d poss ks of
             Inl e \<Rightarrow> Inl e
           | Inr rs \<Rightarrow> Inr ((out, v * 100 / poss) # rs)))"

definition per_100_keys :: "(string \<times> string) list" where
  "per_100_keys =
     [(''PTS100'', ''PTS''), (''AST100'', ''AST''), (''ORB100'', ''OREB''),
      (''DRB100'', ''DREB''), (''STL100'', ''STL''), (''BLK100'', ''BLK''),
      (''TOV100'', ''TOV''), (''PF100'', ''PF''), (''PM100'', ''PLUS_MINUS'')]"

definition calculate_per_100_stats :: "stats_dict \<Rightarrow> error + (string \<times> real) list" where
  "calculate_per_100_stats d =
     (case calculate_player_possessions (get_or0 d ''MIN'') of
        Inl e \<Rightarrow> Inl e
      | Inr player_poss \<Rightarrow>
          if player_poss \<le> 0 then Inr (map (\<lambda>(out, k). (out, 0)) per_100_keys)
          else rate_entries d player_poss per_100_keys)"

definition def_100_keys :: "(string \<times> string) list" where
  "def_100_keys =
     [(''DRB100'', ''DREB''), (''STL100'', ''STL''), (''BLK100'', ''BLK''), (''PF100'', ''PF'')]"

definition calculate_defensive_per_100_stats :: "stats_dict \<Rightarrow> error + (string \<times> real) list" where
  "calculate_defensive_per_100_stats d =
     (case calculate_player_possessions (get_or0 d ''MIN'') of
        Inl e \<Rightarrow> Inl e
      | Inr player_poss \<Rightarrow>
          if player_poss \<le> 0 then Inr (map (\<lambda>(out, k). (out, 0)) def_100_keys)
          else rate_entries d player_poss def_100_keys)"

text \<open>
  \<^verbatim>\<open>calculate_true_shooting\<close>: \<^verbatim>\<open>tsa = fga + 0.44 * fta\<close>;
  \<^verbatim>\<open>if tsa <= 0: return 0.0\<close>; \<^verbatim>\<open>return pts / (2 * tsa)\<close>.
  The points are only used as a number on the second path.
\<close>

definition calculate_true_shooting :: "stats_dict \<Rightarrow> error + real" where
  "calculate_true_shooting d =
     (let pts = get_or0 d ''PTS''; fga = get_or0 d ''FGA''; fta = get_or0 d ''FTA''
      in case as_num fta of
           Inl e \<Rightarrow> Inl e
         | Inr t \<Rightarrow>
             (case as_num fga of
                Inl e \<Rightarrow> Inl e
              | Inr a \<Rightarrow>
                  (let tsa = a + 0.44 * t
                   in if tsa \<le> 0 then Inr 0
                      else case as_num pts of
                             Inl e \<Rightarrow> Inl e
                           | Inr p \<Rightarrow> Inr (p / (2 * tsa)))))"

section \<open>Position classifier\<close>

text \<open>
  \<^verbatim>\<open>assign_position_group\<close> reads its fields with \<^verbatim>\<open>stats_dict.get(k, dflt)\<close> and no
  \<^verbatim>\<open>or 0\<close>: a field that is present and \<^verbatim>\<open>None\<close> reaches \<^verbatim>\<open>+\<close> or \<^verbatim>\<open>max\<close>
  and raises \<^verbatim>\<open>TypeError\<close>. \<^verbatim>\<open>max(gp, 1)\<close> returns \<^verbatim>\<open>gp\<close> unless \<^verbatim>\<open>1 > gp\<close>.
\<close>

definition py_max :: "real \<Rightarrow> real \<Rightarrow> real" where
  "py_max a b = (if b > a then b else a)"

definition assign_position_group :: "stats_dict \<Rightarrow> error + string" where
  "assign_position_group d =
     (case as_num (dict_get d ''OREB'' (Num 0)) of
        Inl e \<Rightarrow> Inl e
      | Inr oreb \<Rightarrow>
     (case as_num (dict_get d ''DREB'' (Num 0)) of
        Inl e \<Rightarrow> Inl e
      | Inr dreb \<Rightarrow>
     (case as_num (dict_get d ''GP'' (Num 1)) of
        Inl e \<Rightarrow> Inl e
      | Inr gp \<Rightarrow>
     (let reb_per_game = (oreb + dreb) / py_max gp 1
      in case as_num (dict_get d ''AST'' (Num 0)) of
           Inl e \<Rightarrow> Inl e
         | Inr ast \<Rightarrow>
             (let ast_per_game = ast / py_max gp 1
              in if reb_per_game \<ge> 7.0 then Inr ''BIG''
                 else if ast_per_game \<ge> 4.0 then Inr ''GUARD''
                 else Inr ''WING'')))))"

section \<open>numpy floats\<close>

text \<open>
  \<^verbatim>\<open>np.mean\<close> and \<^verbatim>\<open>np.std\<close> return numpy floats. Such a value is an exact real or
  \<open>NaN\<close>: the mean of an empty array is \<^verbatim>\<open>nan\<close> (with a warning, no exception), and
  arithmetic on \<^verbatim>\<open>nan\<close> gives \<^verbatim>\<open>nan\<close>. numpy division by zero does not raise either:
  it gives \<^verbatim>\<open>nan\<close> or an infinity, and the model writes \<open>NaN\<close> for both.
\<close>

datatype npfloat = Fin real | NaN

definition mean_r :: "real list \<Rightarrow> real" where
  "mean_r xs = sum_list xs / real (length xs)"

definition std_r :: "real list \<Rightarrow> real" where
  "std_r xs = sqrt (mean_r (map (\<lambda>x. (x - mean_r xs)\<^sup>2) xs))"

definition np_mean :: "real list \<Rightarrow> npfloat" where
  "np_mean xs = (if xs = [] then NaN else Fin (mean_r xs))"

definition np_std :: "real list \<Rightarrow> npfloat" where
  "np_std xs = (if xs = [] then NaN else Fin (std_r xs))"

text \<open>
  \<^verbatim>\<open>max(np.std(values), 0.1)\<close>: Python's \<^verbatim>\<open>max(a, b)\<close> returns \<^verbatim>\<open>a\<close> unless
  \<^verbatim>\<open>b > a\<close>, and every comparison with \<^verbatim>\<open>nan\<close> is false.
\<close>

definition py_max_np :: "npfloat \<Rightarrow> real \<Rightarrow> npfloat" where
  "py_max_np a b = (case a of NaN \<Rightarrow> NaN | Fin v \<Rightarrow> if b > v then Fin b else Fin v)"

fun np_add :: "npfloat \<Rightarrow> npfloat \<Rightarrow> npfloat" where
  "np_add (Fin a) (Fin b) = Fin (a + b)"
| "np_add _ _ = NaN"

fun np_sub :: "npfloat \<Rightarrow> npfloat \<Rightarrow> npfloat" where
  "np_sub (Fin a) (Fin b) = Fin (a - b)"
| "np_sub _ _ = NaN"

fun np_mul :: "npfloat \<Rightarrow> npfloat \<Rightarrow> npfloat" where
  "np_mul (Fin a) (Fin b) = Fin (a * b)"
| "np_mul _ _ = NaN"

fun np_div :: "npfloat \<Rightarrow> npfloat \<Rightarrow> npfloat" where
  "np_div (Fin a) (Fin b) = (if b = 0 then NaN else Fin (a / b))"
| "np_div _ _ = NaN"

text \<open>\<^verbatim>\<open>a < b\<close> and \<^verbatim>\<open>a >= b\<close> on numpy floats: false when an operand is \<^verbatim>\<open>nan\<close>.\<close>

fun np_less :: "npfloat \<Rightarrow> npfloat \<Rightarrow> bool" where
  "np_less (Fin a) (Fin b) = (a < b)"
| "np_less _ _ = False"

fun np_ge :: "npfloat \<Rightarrow> npfloat \<Rightarrow> bool" where
  "np_ge (Fin a) (Fin b) = (a \<ge> b)"
| "np_ge _ _ = False"

text \<open>A list of numpy floats as an array of reals, when none of them is \<open>NaN\<close>.\<close>

fun fin_list :: "npfloat list \<Rightarrow> real list option" where
  "fin_list [] = Some []"
| "fin_list (NaN # xs) = None"
| "fin_list (Fin x # xs) = (case fin_list xs of None \<Rightarrow> None | Some rs \<Rightarrow> Some (x # rs))"

text \<open>
  Rounding to one decimal place in exact arithmetic: the nearest multiple of one tenth, a
  tie going to the even one.
\<close>

definition rint :: "real \<Rightarrow> int" where
  "rint y =
     (let f = \<lfloor>y\<rfloor>; r = y - of_int f
      in if r < 1 / 2 then f else if r > 1 / 2 then f + 1 else if even f then f else f + 1)"

definition py_round1 :: "real \<Rightarrow> real" where
  "py_round1 x = of_int (rint (x * 10)) / 10"

section \<open>Reference distribution builder\<close>

text \<open>A list comprehension \<^verbatim>\<open>[f(p) for p in ps]\<close> whose \<^verbatim>\<open>f\<close> may raise.\<close>

fun map_err :: "('a \<Rightarrow> error + 'b) \<Rightarrow> 'a list \<Rightarrow> error + 'b list" where
  "map_err f [] = Inr []"
| "map_err f (x # xs) =
     (case f x of
        Inl e \<Rightarrow> Inl e
      | Inr y \<Rightarrow> (case map_err f xs of Inl e \<Rightarrow> Inl e | Inr ys \<Rightarrow> Inr (y # ys)))"

text \<open>
  The first loop of \<^verbatim>\<open>calculate_position_based_z_scores\<close>:
  \<^verbatim>\<open>
  for p in all_players_data:
      if (p.get('MIN', 0) or 0) >= min_minutes:
          p['POSITION_GROUP'] = assign_position_group(p)
          qualified_players.append(p)
  \<close>
  The assignment writes into the caller's dictionary. The model returns the caller's
  list as the loop leaves it, and the list of qualified players.
\<close>

fun qualify :: "real \<Rightarrow> stats_dict list \<Rightarrow> error + (stats_dict list \<times> stats_dict list)" where
  "qualify min_minutes [] = Inr ([], [])"
| "qualify min_minutes (p # ps) =
     (case as_num (get_or0 p ''MIN'') of
        Inl e \<Rightarrow> Inl e
      | Inr m \<Rightarrow>
          if m \<ge> min_minutes then
            (case assign_position_group p of
               Inl e \<Rightarrow> Inl e
             | Inr g \<Rightarrow>
                 (let p' = p(''POSITION_GROUP'' \<mapsto> Str g)
                  in case qualify min_minutes ps of
                       Inl e \<Rightarrow> Inl e
                     | Inr (ps', qs) \<Rightarrow> Inr (p' # ps', p' # qs)))
          else
            (case qualify min_minutes ps of
               Inl e \<Rightarrow> Inl e
             | Inr (ps', qs) \<Rightarrow> Inr (p # ps', qs)))"

text \<open>\<^verbatim>\<open>dict(p, POSITION_GROUP=assign_position_group(p))\<close>: a copy, the caller's dictionary is not written.\<close>

definition with_group :: "stats_dict \<Rightarrow> error + stats_dict" where
  "with_group p =
     (case assign_position_group p of
        Inl e \<Rightarrow> Inl e
      | Inr g \<Rightarrow> Inr (p(''POSITION_GROUP'' \<mapsto> Str g)))"

text \<open>
  The qualified players: the loop, then
  \<^verbatim>\<open>
  if len(qualified_players) == 0:
      qualified_players = [dict(p, POSITION_GROUP=assign_position_group(p)) for p in all_players_data]
  \<close>
  The result is the caller's list as these statements leave it, and the qualified players.
\<close>

definition qualified_players ::
    "stats_dict list \<Rightarrow> real \<Rightarrow> error + (stats_dict list \<times> stats_dict list)" where
  "qualified_players all_players_data min_minutes =
     (case qualify min_minutes all_players_data of
        Inl e \<Rightarrow> Inl e
      | Inr (all_players_data', qualified0) \<Rightarrow>
          if length qualified0 = 0 then
            (case map_err with_group all_players_data' of
               Inl e \<Rightarrow> Inl e
             | Inr copies \<Rightarrow> Inr (all_players_data', copies))
          else Inr (all_players_data', qualified0))"

record group_entry =
  def_stats :: "(string \<times> real) list"
  per_100 :: "(string \<times> real) list"
  ts :: real

text \<open>\<^verbatim>\<open>position_groups[pos].append(x)\<close>\<close>

fun group_append :: "(string \<times> 'a list) list \<Rightarrow> string \<Rightarrow> 'a \<Rightarrow> error + (string \<times> 'a list) list" where
  "group_append [] pos x = Inl KeyError"
| "group_append ((k, xs) # rest) pos x =
     (if k = pos then Inr ((k, xs @ [x]) # rest)
      else case group_append rest pos x of
             Inl e \<Rightarrow> Inl e
           | Inr rest' \<Rightarrow> Inr ((k, xs) # rest'))"

fun fill_groups :: "(string \<times> group_entry list) list \<Rightarrow> (stats_dict \<times> group_entry) list
    \<Rightarrow> error + (string \<times> group_entry list) list" where
  "fill_groups groups [] = Inr groups"
| "fill_groups groups ((p, x) # rest) =
     (case p ''POSITION_GROUP'' of
        Some (Str pos) \<Rightarrow>
          (case group_append groups pos x of
             Inl e \<Rightarrow> Inl e
           | Inr groups' \<Rightarrow> fill_groups groups' rest)
      | _ \<Rightarrow> Inl KeyError)"

text \<open>\<^verbatim>\<open>np.array([p[stat] for p in rows])\<close>\<close>

definition column :: "string \<Rightarrow> (string \<times> real) list list \<Rightarrow> error + real list" where
  "column stat rows = map_err (\<lambda>r. dict_index r stat) rows"

fun columns :: "string list \<Rightarrow> (string \<times> real) list list \<Rightarrow> error + (string \<times> real list) list" where
  "columns [] rows = Inr []"
| "columns (stat # stats) rows =
     (case column stat rows of
        Inl e \<Rightarrow> Inl e
      | Inr values \<Rightarrow>
          (case columns stats rows of
             Inl e \<Rightarrow> Inl e
           | Inr cs \<Rightarrow> Inr ((stat, values) # cs)))"

text \<open>
  \<^verbatim>\<open>
  for stat, values in arrays.items():
      out[f'{stat}_mean'] = np.mean(values)
      out[f'{stat}_std'] = max(np.std(values), 0.1)
  \<close>
\<close>

fun dist_entries :: "real \<Rightarrow> (string \<times> real list) list \<Rightarrow> (string \<times> npfloat) list" where
  "dist_entries eps [] = []"
| "dist_entries eps ((stat, values) # rest) =
     (stat @ ''_mean'', np_mean values) #
     (stat @ ''_std'', py_max_np (np_std values) eps) #
     dist_entries eps rest"

definition def_stat_names :: "string list" where
  "def_stat_names = [''DRB100'', ''STL100'', ''BLK100'', ''PF100'']"

definition off_stat_names :: "string list" where
  "off_stat_names = [''PTS100'', ''AST100'', ''ORB100'', ''TOV100'', ''PM100'']"

text \<open>
  \<^verbatim>\<open>
  for pos, players in position_groups.items():
      if len(players) < 3:
          continue
      ...
  \<close>
\<close>

fun position_pass :: "(string \<times> group_entry list) list
    \<Rightarrow> error + (string \<times> (string \<times> npfloat) list) list" where
  "position_pass [] = Inr []"
| "position_pass ((pos, players) # rest) =
     (if length players < 3 then position_pass rest
      else case columns def_stat_names (map def_stats players) of
             Inl e \<Rightarrow> Inl e
           | Inr def_arrays \<Rightarrow>
               (case position_pass rest of
                  Inl e \<Rightarrow> Inl e
                | Inr ps \<Rightarrow> Inr ((pos, dist_entries 0.1 def_arrays) # ps)))"

text \<open>
  The dictionary \<^verbatim>\<open>league_stats\<close>: its numeric entries (\<^verbatim>\<open>'TS_mean'\<close>, \<^verbatim>\<open>'TS_std'\<close>, ...)
  and its entry \<^verbatim>\<open>'position_stats'\<close>, which is absent from a dictionary that the builder
  did not make.
\<close>

record league_stats =
  entries :: "(string \<times> npfloat) list"
  position_stats :: "(string \<times> (string \<times> npfloat) list) list option"

text \<open>
  The builder. The statements after the first \<^verbatim>\<open>return league_stats\<close> of the source
  function are never executed. When an exception leaves the function, the model gives the
  exception only.
\<close>

definition calculate_position_based_z_scores ::
    "stats_dict list \<Rightarrow> real \<Rightarrow> error + (league_stats \<times> stats_dict list)" where
  "calculate_position_based_z_scores all_players_data min_minutes =
     (case qualified_players all_players_data min_minutes of
        Inl e \<Rightarrow> Inl e
      | Inr (all_players_data', qualified) \<Rightarrow>
     (case map_err calculate_defensive_per_100_stats qualified of
        Inl e \<Rightarrow> Inl e
      | Inr all_def_100 \<Rightarrow>
     (case map_err calculate_per_100_stats qualified of
        Inl e \<Rightarrow> Inl e
      | Inr all_per_100 \<Rightarrow>
     (case map_err calculate_true_shooting qualified of
        Inl e \<Rightarrow> Inl e
      | Inr all_ts \<Rightarrow>
     (case fill_groups [(''GUARD'', []), (''WING'', []), (''BIG'', [])]
             (zip qualified
                (map (\<lambda>(d, r, t). \<lparr>def_stats = d, per_100 = r, ts = t\<rparr>)
                   (zip all_def_100 (zip all_per_100 all_ts)))) of
        Inl e \<Rightarrow> Inl e
      | Inr position_groups \<Rightarrow>
     (case position_pass position_groups of
        Inl e \<Rightarrow> Inl e
      | Inr pos_stats \<Rightarrow>
     (case columns off_stat_names all_per_100 of
        Inl e \<Rightarrow> Inl e
      | Inr off_arrays \<Rightarrow>
          Inr (\<lparr>entries = dist_entries 0.1 ((''TS'', all_ts) # off_arrays),
                position_stats = Some pos_stats\<rparr>,
               all_players_data'))))))))"

section \<open>Z-score composer\<close>

text \<open>
  \<^verbatim>\<open>(value - league_stats[stat + '_mean']) / league_stats[stat + '_std']\<close>. The entries of
  \<^verbatim>\<open>league_stats\<close> are numpy floats, as the builder makes them, so the division is
  numpy's and does not raise; a missing key raises \<^verbatim>\<open>KeyError\<close>.
\<close>

definition z_score :: "(string \<times> npfloat) list \<Rightarrow> string \<Rightarrow> real \<Rightarrow> error + npfloat" where
  "z_score ls stat x =
     (case dict_index ls (stat @ ''_mean'') of
        Inl e \<Rightarrow> Inl e
      | Inr m \<Rightarrow>
          (case dict_index ls (stat @ ''_std'') of
             Inl e \<Rightarrow> Inl e
           | Inr s \<Rightarrow> Inr (np_div (np_sub (Fin x) m) s)))"

text \<open>\<^verbatim>\<open>z = (per_100[stat] - league_stats[...]) / league_stats[...]\<close>\<close>

definition z_of :: "(string \<times> npfloat) list \<Rightarrow> (string \<times> real) list \<Rightarrow> string \<Rightarrow> error + npfloat" where
  "z_of ls rates stat =
     (case dict_index rates stat of
        Inl e \<Rightarrow> Inl e
      | Inr x \<Rightarrow> z_score ls stat x)"

definition calculate_ovibe_z :: "stats_dict \<Rightarrow> league_stats \<Rightarrow> error + npfloat" where
  "calculate_ovibe_z d league =
     (case calculate_per_100_stats d of
        Inl e \<Rightarrow> Inl e
      | Inr rates \<Rightarrow>
     (case calculate_true_shooting d of
        Inl e \<Rightarrow> Inl e
      | Inr ts_pct \<Rightarrow>
     (case z_score (entries league) ''TS'' ts_pct of
        Inl e \<Rightarrow> Inl e
      | Inr z_ts \<Rightarrow>
     (case z_of (entries league) rates ''PTS100'' of
        Inl e \<Rightarrow> Inl e
      | Inr z_pts100 \<Rightarrow>
     (case z_of (entries league) rates ''AST100'' of
        Inl e \<Rightarrow> Inl e
      | Inr z_ast100 \<Rightarrow>
     (case z_of (entries league) rates ''ORB100'' of
        Inl e \<Rightarrow> Inl e
      | Inr z_orb100 \<Rightarrow>
     (case z_of (entries league) rates ''TOV100'' of
        Inl e \<Rightarrow> Inl e
      | Inr z_tov100 \<Rightarrow>
          Inr (np_sub
                 (np_add
                    (np_add
                       (np_add (np_mul (Fin 1.8) z_ts) (np_mul (Fin 1.2) z_pts100))
                       (np_mul (Fin 1.3) z_ast100))
                    (np_mul (Fin 0.8) z_orb100))
                 (np_mul (Fin 1.4) z_tov100)))))))))"

text \<open>
  \<^verbatim>\<open>(def_100[stat] - pos_stats.get(stat + '_mean', 0)) / pos_stats.get(stat + '_std', 1)\<close>
\<close>

definition z_def :: "(string \<times> npfloat) list \<Rightarrow> (string \<times> real) list \<Rightarrow> string \<Rightarrow> error + npfloat" where
  "z_def pos_stats def_100 stat =
     (case dict_index def_100 stat of
        Inl e \<Rightarrow> Inl e
      | Inr x \<Rightarrow>
          Inr (np_div
                 (np_sub (Fin x)
                    (case map_of pos_stats (stat @ ''_mean'') of None \<Rightarrow> Fin 0 | Some m \<Rightarrow> m))
                 (case map_of pos_stats (stat @ ''_std'') of None \<Rightarrow> Fin 1 | Some s \<Rightarrow> s)))"

text \<open>
  \<^verbatim>\<open>calculate_dvibe_z\<close>:
  \<^verbatim>\<open>position_stats = league_stats.get('position_stats', {})\<close>,
  \<^verbatim>\<open>pos_stats = position_stats.get(position, {})\<close>, and \<^verbatim>\<open>if not pos_stats\<close> is the
  test for an empty dictionary.
\<close>

definition calculate_dvibe_z :: "stats_dict \<Rightarrow> league_stats \<Rightarrow> error + npfloat" where
  "calculate_dvibe_z d league =
     (case calculate_defensive_per_100_stats d of
        Inl e \<Rightarrow> Inl e
      | Inr def_100 \<Rightarrow>
     (case assign_position_group d of
        Inl e \<Rightarrow> Inl e
      | Inr position \<Rightarrow>
     (let pstats = (case position_stats league of None \<Rightarrow> [] | Some ps \<Rightarrow> ps);
          pos_stats = (case map_of pstats position of None \<Rightarrow> [] | Some x \<Rightarrow> x)
      in if pos_stats = [] then
           Inr (Fin (1.3 * 0.0 + 1.1 * 0.0 + 0.5 * 0.0 - 1.0 * 0.0))
         else
     (case z_def pos_stats def_100 ''STL100'' of
        Inl e \<Rightarrow> Inl e
      | Inr z_stl100 \<Rightarrow>
     (case z_def pos_stats def_100 ''BLK100'' of
        Inl e \<Rightarrow> Inl e
      | Inr z_blk100 \<Rightarrow>
     (case z_def pos_stats def_100 ''DRB100'' of
        Inl e \<Rightarrow> Inl e
      | Inr z_drb100 \<Rightarrow>
     (case z_def pos_stats def_100 ''PF100'' of
        Inl e \<Rightarrow> Inl e
      | Inr z_pf100 \<Rightarrow>
          Inr (np_sub
                 (np_add
                    (np_add (np_mul (Fin 1.3) z_stl100) (np_mul (Fin 1.1) z_blk100))
                    (np_mul (Fin 0.5) z_drb100))
                 (np_mul (Fin 1.0) z_pf100)))))))))"

definition calculate_impact_z :: "stats_dict \<Rightarrow> league_stats \<Rightarrow> error + npfloat" where
  "calculate_impact_z d league =
     (case calculate_per_100_stats d of
        Inl e \<Rightarrow> Inl e
      | Inr rates \<Rightarrow> z_of (entries league) rates ''PM100'')"

text \<open>
  \<^verbatim>\<open>calculate_vibe_box_score\<close> calls \<^verbatim>\<open>calculate_offensive_raw\<close>, a name that the module
  never defines: the call raises \<^verbatim>\<open>NameError\<close>, and the statements after it are never
  executed.
\<close>

definition calculate_vibe_box_score :: "stats_dict \<Rightarrow> error + real" where
  "calculate_vibe_box_score d =
     (case as_num (get_or0 d ''MIN'') of
        Inl e \<Rightarrow> Inl e
      | Inr m \<Rightarrow>
          if m \<le> 0 then Inr 0.0
          else (case calculate_player_possessions (get_or0 d ''MIN'') of
                  Inl e \<Rightarrow> Inl e
                | Inr player_poss \<Rightarrow> Inl NameError))"

record vibe_result =
  OVIBE :: npfloat
  DVIBE :: npfloat
  Impact :: npfloat
  Skill :: npfloat
  VIBE_raw :: npfloat
  VIBE_shrunk :: npfloat
  minutes :: real
  shrink_factor :: real
  VIBE :: "npfloat option"

datatype vibe_out = BoxScore real | Breakdown vibe_result

text \<open>
  \<^verbatim>\<open>calculate_vibe_advanced(stats_dict, league_stats=None)\<close>. The result dictionary has
  no key \<^verbatim>\<open>'VIBE'\<close> yet (\<open>VIBE = None\<close>). \<^verbatim>\<open>minutes / (minutes + 600)\<close> divides
  Python numbers and raises \<^verbatim>\<open>ZeroDivisionError\<close> on a zero divisor.
\<close>

definition calculate_vibe_advanced :: "stats_dict \<Rightarrow> league_stats option \<Rightarrow> error + vibe_out" where
  "calculate_vibe_advanced d league_opt =
     (case league_opt of
        None \<Rightarrow>
          (case calculate_vibe_box_score d of Inl e \<Rightarrow> Inl e | Inr v \<Rightarrow> Inr (BoxScore v))
      | Some league \<Rightarrow>
     (case calculate_ovibe_z d league of
        Inl e \<Rightarrow> Inl e
      | Inr ovibe_z \<Rightarrow>
     (case calculate_dvibe_z d league of
        Inl e \<Rightarrow> Inl e
      | Inr dvibe_z \<Rightarrow>
     (case calculate_impact_z d league of
        Inl e \<Rightarrow> Inl e
      | Inr impact_z \<Rightarrow>
     (let skill_z = np_add (np_mul (Fin 0.6) ovibe_z) (np_mul (Fin 0.4) dvibe_z);
          vibe_raw = np_add (np_mul (Fin 0.65) skill_z) (np_mul (Fin 0.35) impact_z)
      in case as_num (get_or0 d ''MIN'') of
           Inl e \<Rightarrow> Inl e
         | Inr m \<Rightarrow>
             if m + 600 = 0 then Inl ZeroDivisionError
             else
               (let shrink = m / (m + 600);
                    vibe_shrunk = np_mul vibe_raw (Fin shrink)
                in Inr (Breakdown
                     \<lparr>OVIBE = ovibe_z, DVIBE = dvibe_z, Impact = impact_z, Skill = skill_z,
                      VIBE_raw = vibe_raw, VIBE_shrunk = vibe_shrunk, minutes = m,
                      shrink_factor = shrink, VIBE = None\<rparr>)))))))"

section \<open>League normalizer\<close>

text \<open>
  The normalizer computes with doubles: \<^verbatim>\<open>np.mean\<close> and \<^verbatim>\<open>np.std\<close> of the shrunk
  composites, then \<^verbatim>\<open>100 + 15 * (x - mean_v) / std_v\<close> and \<^verbatim>\<open>round(..., 1)\<close>. What it
  returns depends on the rounding of each of these steps (whether \<^verbatim>\<open>std_v <= 0\<close> holds
  for equal composites, for one), and neither numpy nor the floating-point unit is code
  of this repository. They are a parameter of the model:
  \<^item> \<open>fl\<close> rounds the exact result of one arithmetic operation on doubles to the double
    that the operation returns;
  \<^item> \<open>fmean\<close> and \<open>fstd\<close> are \<^verbatim>\<open>np.mean\<close> and \<^verbatim>\<open>np.std\<close> on a non-empty array of
    numbers;
  \<^item> \<open>fround1\<close> is \<^verbatim>\<open>round(x, 1)\<close> on a number.
\<close>

record arith =
  fl :: "real \<Rightarrow> real"
  fmean :: "real list \<Rightarrow> real"
  fstd :: "real list \<Rightarrow> real"
  fround1 :: "real \<Rightarrow> real"

text \<open>The arithmetic without any rounding but that of \<^verbatim>\<open>round(x, 1)\<close>.\<close>

definition exact_arith :: arith where
  "exact_arith = \<lparr>fl = (\<lambda>x. x), fmean = mean_r, fstd = std_r, fround1 = py_round1\<rparr>"

text \<open>
  An arithmetic operation on numpy floats: \<^verbatim>\<open>nan\<close> when an operand is \<^verbatim>\<open>nan\<close>, the
  rounded exact result otherwise. numpy's division by zero does not raise.
\<close>

definition fl_op :: "arith \<Rightarrow> (real \<Rightarrow> real \<Rightarrow> real) \<Rightarrow> npfloat \<Rightarrow> npfloat \<Rightarrow> npfloat" where
  "fl_op ar f a b =
     (case a of
        NaN \<Rightarrow> NaN
      | Fin x \<Rightarrow> (case b of NaN \<Rightarrow> NaN | Fin y \<Rightarrow> Fin (fl ar (f x y))))"

definition fl_div :: "arith \<Rightarrow> npfloat \<Rightarrow> npfloat \<Rightarrow> npfloat" where
  "fl_div ar a b = (if b = Fin 0 then NaN else fl_op ar (\<lambda>x y. x / y) a b)"

definition np_round1 :: "arith \<Rightarrow> npfloat \<Rightarrow> npfloat" where
  "np_round1 ar a = (case a of NaN \<Rightarrow> NaN | Fin x \<Rightarrow> Fin (fround1 ar x))"

text \<open>
  \<^verbatim>\<open>np.mean\<close> and \<^verbatim>\<open>np.std\<close> of a list of numpy floats: \<^verbatim>\<open>nan\<close> as soon as one of
  them is \<^verbatim>\<open>nan\<close>, and on an empty list.
\<close>

definition np_mean_f :: "arith \<Rightarrow> npfloat list \<Rightarrow> npfloat" where
  "np_mean_f ar xs =
     (case fin_list xs of
        None \<Rightarrow> NaN
      | Some rs \<Rightarrow> if rs = [] then NaN else Fin (fmean ar rs))"

definition np_std_f :: "arith \<Rightarrow> npfloat list \<Rightarrow> npfloat" where
  "np_std_f ar xs =
     (case fin_list xs of
        None \<Rightarrow> NaN
      | Some rs \<Rightarrow> if rs = [] then NaN else Fin (fstd ar rs))"

text \<open>\<^verbatim>\<open>if std_v <= 0: std_v = 1.0\<close>; the comparison is false on \<^verbatim>\<open>nan\<close>.\<close>

definition floor_std :: "npfloat \<Rightarrow> npfloat" where
  "floor_std s = (case s of NaN \<Rightarrow> NaN | Fin v \<Rightarrow> if v \<le> 0 then Fin 1.0 else Fin v)"

text \<open>
  \<^verbatim>\<open>calculate_final_vibe_scores\<close> writes the key \<^verbatim>\<open>'VIBE'\<close> of every result and returns
  the list it was given. A result may carry more keys (the caller adds
  \<^verbatim>\<open>'PLAYER_ID'\<close>): they are the extension part of the record.
\<close>

definition calculate_final_vibe_scores ::
    "arith \<Rightarrow> ('a vibe_result_scheme) list \<Rightarrow> ('a vibe_result_scheme) list" where
  "calculate_final_vibe_scores ar all_vibe_results =
     (let shrunk_scores = map VIBE_shrunk all_vibe_results
      in if length shrunk_scores = 0 then all_vibe_results
         else
           (let mean_v = np_mean_f ar shrunk_scores;
                std_v = floor_std (np_std_f ar shrunk_scores)
            in map (\<lambda>result.
                      (let vibe_final =
                             fl_op ar (\<lambda>x y. x + y) (Fin 100)
                               (fl_div ar
                                  (fl_op ar (\<lambda>x y. x * y) (Fin 15)
                                     (fl_op ar (\<lambda>x y. x - y) (VIBE_shrunk result) mean_v))
                                  std_v)
                       in result\<lparr>VIBE := Some (np_round1 ar vibe_final)\<rparr>))
                 all_vibe_results))"

section \<open>Reading a stat line as the specification does\<close>

text \<open>
  The specification reads a field that is absent or \<^verbatim>\<open>None\<close> as 0. \<open>coerced\<close> is that
  reading, and \<open>numeric_or_missing\<close> says that a field holds a number, holds
  \<^verbatim>\<open>None\<close> or is absent.
\<close>

definition coerced :: "stats_dict \<Rightarrow> string \<Rightarrow> real" where
  "coerced d k = (case d k of Some (Num r) \<Rightarrow> r | _ \<Rightarrow> 0)"

definition numeric_or_missing :: "stats_dict \<Rightarrow> string \<Rightarrow> bool" where
  "numeric_or_missing d k = (case d k of Some (Str s) \<Rightarrow> False | _ \<Rightarrow> True)"

section \<open>Reading distributions and results\<close>

text \<open>
  A key of the form \<^verbatim>\<open>'<stat>_std'\<close>, and the property that every such entry of a
  distribution is a number not below \<open>b\<close>.
\<close>

definition is_std_key :: "string \<Rightarrow> bool" where
  "is_std_key k = (length k \<ge> 4 \<and> drop (length k - 4) k = ''_std'')"

definition std_floor_ok :: "real \<Rightarrow> (string \<times> npfloat) list \<Rightarrow> bool" where
  "std_floor_ok b es = list_all (\<lambda>(k, v). is_std_key k \<longrightarrow> np_ge v (Fin b)) es"

text \<open>The number of qualified players that carry the position group \<open>g\<close>.\<close>

definition group_size :: "string \<Rightarrow> stats_dict list \<Rightarrow> nat" where
  "group_size g qs = length (filter (\<lambda>q. q ''POSITION_GROUP'' = Some (Str g)) qs)"


text \<open>A league whose every mean is 0 and every standard deviation 1, without position groups.\<close>

definition unit_league :: league_stats where
  "unit_league =
     \<lparr>entries =
        [(''TS_mean'', Fin 0), (''TS_std'', Fin 1), (''PTS100_mean'', Fin 0), (''PTS100_std'', Fin 1),
         (''AST100_mean'', Fin 0), (''AST100_std'', Fin 1), (''ORB100_mean'', Fin 0),
         (''ORB100_std'', Fin 1), (''TOV100_mean'', Fin 0), (''TOV100_std'', Fin 1),
         (''PM100_mean'', Fin 0), (''PM100_std'', Fin 1)],
      position_stats = None\<rparr>"

text \<open>The keys of the league-wide distribution, in the order in which the builder writes them.\<close>

definition league_keys :: "string list" where
  "league_keys =
     [''TS_mean'', ''TS_std'', ''PTS100_mean'', ''PTS100_std'', ''AST100_mean'', ''AST100_std'',
      ''ORB100_mean'', ''ORB100_std'', ''TOV100_mean'', ''TOV100_std'', ''PM100_mean'',
      ''PM100_std'']"


text \<open>
  The same score as the doubles compute it, before \<^verbatim>\<open>round(..., 1)\<close>: every operation
  rounds, and mean and standard deviation are numpy's.
\<close>

definition computed_score :: "arith \<Rightarrow> real list \<Rightarrow> real \<Rightarrow> real" where
  "computed_score ar xs x =
     fl ar (100 + fl ar (fl ar (15 * fl ar (x - fmean ar xs)) /
                          (if fstd ar xs \<le> 0 then 1.0 else fstd ar xs)))"

text \<open>A result of the composer with a given shrunk composite, for the examples.\<close>

definition sample_result :: "npfloat \<Rightarrow> vibe_result" where
  "sample_result s =
     \<lparr>OVIBE = Fin 0, DVIBE = Fin 0, Impact = Fin 0, Skill = Fin 0, VIBE_raw = Fin 0,
      VIBE_shrunk = s, minutes = 600, shrink_factor = 1 / 2, VIBE = None\<rparr>"

text \<open>
  The distributions that the builder returns for one player, and for three players, who
  have 300 minutes and no other statistic.
\<close>

definition lone_league :: league_stats where
  "lone_league =
     \<lparr>entries =
        [(''TS_mean'', Fin 0), (''TS_std'', Fin 0.1), (''PTS100_mean'', Fin 0),
         (''PTS100_std'', Fin 0.1), (''AST100_mean'', Fin 0), (''AST100_std'', Fin 0.1),
         (''ORB100_mean'', Fin 0), (''ORB100_std'', Fin 0.1), (''TOV100_mean'', Fin 0),
         (''TOV100_std'', Fin 0.1), (''PM100_mean'', Fin 0), (''PM100_std'', Fin 0.1)],
      position_stats = Some []\<rparr>"

definition trio_league :: league_stats where
  "trio_league =
     \<lparr>entries =
        [(''TS_mean'', Fin 0), (''TS_std'', Fin 0.1), (''PTS100_mean'', Fin 0),
         (''PTS100_std'', Fin 0.1), (''AST100_mean'', Fin 0), (''AST100_std'', Fin 0.1),
         (''ORB100_mean'', Fin 0), (''ORB100_std'', Fin 0.1), (''TOV100_mean'', Fin 0),
         (''TOV100_std'', Fin 0.1), (''PM100_mean'', Fin 0), (''PM100_std'', Fin 0.1)],
      position_stats =
        Some [(''WING'',
               [(''DRB100_mean'', Fin 0), (''DRB100_std'', Fin 0.1), (''STL100_mean'', Fin 0),
                (''STL100_std'', Fin 0.1), (''BLK100_mean'', Fin 0), (''BLK100_std'', Fin 0.1),
                (''PF100_mean'', Fin 0), (''PF100_std'', Fin 0.1)])]\<rparr>"

definition wing :: stats_dict where
  "wing = [''MIN'' \<mapsto> Num 300]"

definition wing_tagged :: stats_dict where
  "wing_tagged = [''MIN'' \<mapsto> Num 300, ''POSITION_GROUP'' \<mapsto> Str ''WING'']"

text \<open>
  The skill blend and the raw composite of three component z-scores, as the specification
  writes them, and the shrunk composite of what the composer returns.
\<close>

definition skill_of :: "npfloat \<Rightarrow> npfloat \<Rightarrow> npfloat" where
  "skill_of ovibe dvibe = np_add (np_mul (Fin 0.6) ovibe) (np_mul (Fin 0.4) dvibe)"

definition raw_of :: "npfloat \<Rightarrow> npfloat \<Rightarrow> npfloat \<Rightarrow> npfloat" where
  "raw_of ovibe dvibe impact =
     np_add (np_mul (Fin 0.65) (skill_of ovibe dvibe)) (np_mul (Fin 0.35) impact)"

definition shrunk_of :: "error + vibe_out \<Rightarrow> npfloat" where
  "shrunk_of res = (case res of Inr (Breakdown r) \<Rightarrow> VIBE_shrunk r | _ \<Rightarrow> NaN)"


section \<open>Shared lemmas\<close>

lemma as_num_get_or0: "numeric_or_missing d k \<Longrightarrow> as_num (get_or0 d k) = Inr (coerced d k)"
  by (auto simp: numeric_or_missing_def get_or0_def py_or_def dict_get_def coerced_def
      split: option.splits pyval.splits)

lemma rate_entries_ok:
  "\<forall>k \<in> set (map snd ks). numeric_or_missing d k \<Longrightarrow>
   rate_entries d poss ks = Inr (map (\<lambda>(out, k). (out, coerced d k * 100 / poss)) ks)"
  by (induction ks) (auto simp: as_num_get_or0)

lemma possessions_get_or0:
  "numeric_or_missing d k \<Longrightarrow>
   calculate_player_possessions (get_or0 d k) =
     Inr (if coerced d k > 0 then coerced d k * 100 / 240 else 1)"
  by (auto simp: numeric_or_missing_def get_or0_def py_or_def dict_get_def coerced_def
        calculate_player_possessions_def split: option.splits pyval.splits)

subsection \<open>Unfolding the model on concrete inputs\<close>

lemmas eval_defs = calculate_vibe_advanced_def calculate_ovibe_z_def calculate_dvibe_z_def calculate_impact_z_def
  calculate_per_100_stats_def calculate_defensive_per_100_stats_def calculate_true_shooting_def
  calculate_player_possessions_def assign_position_group_def z_of_def z_score_def z_def_def dict_index_def
  get_or0_def py_or_def dict_get_def per_100_keys_def def_100_keys_def py_max_def Let_def

lemmas builder_defs = calculate_position_based_z_scores_def qualified_players_def with_group_def
  column_def def_stat_names_def off_stat_names_def np_mean_def np_std_def mean_r_def std_r_def py_max_np_def

lemma builder_lone_player:
  "calculate_position_based_z_scores [[''MIN'' \<mapsto> Num 300]] 200 =
     Inr (lone_league, [[''MIN'' \<mapsto> Num 300, ''POSITION_GROUP'' \<mapsto> Str ''WING'']])"
  by (simp add: builder_defs eval_defs lone_league_def)

lemma qualified_trio:
  "qualified_players [wing, wing, wing] 200 = Inr ([wing_tagged, wing_tagged, wing_tagged], [wing_tagged, wing_tagged, wing_tagged])"
  by (simp add: builder_defs eval_defs wing_def wing_tagged_def)

lemma builder_trio:
  "calculate_position_based_z_scores [wing, wing, wing] 200 =
     Inr (trio_league, [wing_tagged, wing_tagged, wing_tagged])"
  by (simp add: builder_defs eval_defs trio_league_def wing_def wing_tagged_def)



lemma std_pair: "std_r [0, 2] = 1" "mean_r [0, 2] = 1"
  by (simp_all add: std_r_def mean_r_def)

lemma round_vals: "py_round1 85 = 85" "py_round1 115 = 115"
  by (simp_all add: py_round1_def rint_def)

subsection \<open>The shape of the builder's result\<close>

lemma map_err_length: "map_err f xs = Inr ys \<Longrightarrow> length ys = length xs"
  by (induction xs arbitrary: ys) (auto split: sum.splits)

lemma qualify_length: "qualify mm ps = Inr (ps', qs) \<Longrightarrow> length ps' = length ps"
  by (induction ps arbitrary: ps' qs) (auto simp: Let_def split: sum.splits if_splits prod.splits)

lemma qualified_players_nonempty:
  assumes "qualified_players ps mm = Inr (ps', qs)" "ps \<noteq> []"
  shows "qs \<noteq> []"
  using assms
  by (auto simp: qualified_players_def split: sum.splits prod.splits if_splits
      dest!: map_err_length qualify_length)

lemma columns_shape:
  "columns names rows = Inr cs \<Longrightarrow>
     map fst cs = names \<and> (\<forall>(s, vs) \<in> set cs. length vs = length rows)"
  by (induction names arbitrary: cs)
     (auto simp: column_def split: sum.splits dest: map_err_length)

lemma mean_key_not_std: "\<not> is_std_key (stat @ ''_mean'')"
  by (simp add: is_std_key_def)

lemma floored_std_ge: "vs \<noteq> [] \<Longrightarrow> np_ge (py_max_np (np_std vs) eps) (Fin eps)"
  by (simp add: py_max_np_def np_std_def)

lemma dist_entries_floor:
  "\<forall>(s, vs) \<in> set cs. vs \<noteq> [] \<Longrightarrow> std_floor_ok eps (dist_entries eps cs)"
  by (induction cs) (auto simp: std_floor_ok_def mean_key_not_std floored_std_ge)

lemma dist_entries_keys:
  "map fst (dist_entries eps cs) = concat (map (\<lambda>(s, vs). [s @ ''_mean'', s @ ''_std'']) cs)"
  by (induction cs) auto

lemma position_pass_origin:
  "position_pass groups = Inr ps \<Longrightarrow> (pos, es) \<in> set ps \<Longrightarrow>
     \<exists>players arrays. (pos, players) \<in> set groups \<and> 3 \<le> length players \<and>
        columns def_stat_names (map def_stats players) = Inr arrays \<and>
        es = dist_entries 0.1 arrays"
proof (induction groups arbitrary: ps)
  case Nil
  then show ?case by simp
next
  case (Cons g groups)
  obtain k players where g: "g = (k, players)" by (cases g)
  show ?case
  proof (cases "length players < 3")
    case True
    with Cons.prems g have "position_pass groups = Inr ps" by simp
    from Cons.IH [OF this Cons.prems(2)] show ?thesis by auto
  next
    case False
    with Cons.prems(1) g obtain arrays ps0 where
      c: "columns def_stat_names (map def_stats players) = Inr arrays"
      and p0: "position_pass groups = Inr ps0"
      and ps: "ps = (k, dist_entries 0.1 arrays) # ps0"
      by (auto split: sum.splits)
    show ?thesis
    proof (cases "(pos, es) \<in> set ps0")
      case True
      from Cons.IH [OF p0 True] show ?thesis by auto
    next
      case no: False
      with Cons.prems(2) ps have "pos = k" "es = dist_entries 0.1 arrays" by auto
      with c False g show ?thesis by auto
    qed
  qed
qed

lemma position_pass_floor:
  assumes "position_pass groups = Inr ps" "(pos, es) \<in> set ps"
  shows "std_floor_ok 0.1 es"
proof -
  from position_pass_origin [OF assms] obtain players arrays where
    "(pos, players) \<in> set groups"
    and p: "3 \<le> length players"
    and c: "columns def_stat_names (map def_stats players) = Inr arrays"
    and e: "es = dist_entries 0.1 arrays"
    by blast
  from columns_shape [OF c] p have "\<forall>(s, vs) \<in> set arrays. vs \<noteq> []"
    by fastforce
  then show ?thesis
    unfolding e by (rule dist_entries_floor)
qed

lemma builder_parts:
  assumes "calculate_position_based_z_scores ps mm = Inr (ls, ps')"
  obtains qs all_def_100 all_per_100 all_ts groups pstats off_arrays where
    "qualified_players ps mm = Inr (ps', qs)"
    "map_err calculate_defensive_per_100_stats qs = Inr all_def_100"
    "map_err calculate_per_100_stats qs = Inr all_per_100"
    "map_err calculate_true_shooting qs = Inr all_ts"
    "fill_groups [(''GUARD'', []), (''WING'', []), (''BIG'', [])]
       (zip qs (map (\<lambda>(d, r, t). \<lparr>def_stats = d, per_100 = r, ts = t\<rparr>)
                   (zip all_def_100 (zip all_per_100 all_ts)))) = Inr groups"
    "position_pass groups = Inr pstats"
    "columns off_stat_names all_per_100 = Inr off_arrays"
    "ls = \<lparr>entries = dist_entries 0.1 ((''TS'', all_ts) # off_arrays), position_stats = Some pstats\<rparr>"
  using assms
  by (auto simp: calculate_position_based_z_scores_def split: sum.splits prod.splits)

subsection \<open>Position groups\<close>

lemma group_append_lengths:
  "group_append groups pos x = Inr groups' \<Longrightarrow> distinct (map fst groups) \<Longrightarrow>
   map (\<lambda>(k, xs). (k, length xs)) groups' =
   map (\<lambda>(k, xs). (k, length xs + (if k = pos then 1 else 0))) groups"
proof (induction groups arbitrary: groups')
  case Nil
  then show ?case by simp
next
  case (Cons g groups)
  obtain k xs where g: "g = (k, xs)" by (cases g)
  show ?case
  proof (cases "k = pos")
    case True
    with Cons.prems g have "groups' = (k, xs @ [x]) # groups" by simp
    moreover from Cons.prems(2) g True have "\<forall>(k', ys) \<in> set groups. k' \<noteq> pos"
      by (auto simp: image_iff)
    then have "map (\<lambda>(k, xs). (k, length xs)) groups =
               map (\<lambda>(k, xs). (k, length xs + (if k = pos then 1 else 0))) groups"
      by (intro map_cong) auto
    ultimately show ?thesis using g True by simp
  next
    case False
    with Cons.prems g obtain rest' where r: "group_append groups pos x = Inr rest'"
      and g': "groups' = (k, xs) # rest'"
      by (auto split: sum.splits)
    from Cons.IH [OF r] Cons.prems(2) g' g False show ?thesis by simp
  qed
qed

lemma fill_groups_lengths:
  "fill_groups groups items = Inr groups' \<Longrightarrow> distinct (map fst groups) \<Longrightarrow>
   map (\<lambda>(k, xs). (k, length xs)) groups' =
   map (\<lambda>(k, xs). (k, length xs +
          length (filter (\<lambda>(p, x). p ''POSITION_GROUP'' = Some (Str k)) items))) groups"
proof (induction items arbitrary: groups)
  case Nil
  then show ?case by simp
next
  case (Cons it items)
  obtain p x where it: "it = (p, x)" by (cases it)
  from Cons.prems(1) it obtain pos groups1 where
    pos: "p ''POSITION_GROUP'' = Some (Str pos)"
    and a: "group_append groups pos x = Inr groups1"
    and f: "fill_groups groups1 items = Inr groups'"
    by (auto split: option.splits pyval.splits sum.splits)
  note l1 = group_append_lengths [OF a Cons.prems(2)]
  from l1 have "map fst (map (\<lambda>(k, xs). (k, length xs)) groups1) =
      map fst (map (\<lambda>(k, xs). (k, length xs + (if k = pos then 1 else 0))) groups)"
    by simp
  then have keys: "map fst groups1 = map fst groups"
    by (simp add: case_prod_unfold comp_def)
  with Cons.prems(2) have d1: "distinct (map fst groups1)" by simp
  have "map (\<lambda>(k, xs). (k, length xs)) groups' =
        map (\<lambda>(k, n). (k, n + length (filter (\<lambda>(p, x). p ''POSITION_GROUP'' = Some (Str k)) items)))
          (map (\<lambda>(k, xs). (k, length xs)) groups1)"
    using Cons.IH [OF f d1] by (simp add: case_prod_unfold comp_def)
  also have "\<dots> = map (\<lambda>(k, n). (k, n + length (filter (\<lambda>(p, x). p ''POSITION_GROUP'' = Some (Str k)) items)))
          (map (\<lambda>(k, xs). (k, length xs + (if k = pos then 1 else 0))) groups)"
    using l1 by simp
  also have "\<dots> = map (\<lambda>(k, xs). (k, length xs +
          length (filter (\<lambda>(p, x). p ''POSITION_GROUP'' = Some (Str k)) (it # items)))) groups"
    using it pos by (auto simp: case_prod_unfold comp_def)
  finally show ?case .
qed

lemma filter_zip_fst:
  "length xs = length ps \<Longrightarrow>
   length (filter (\<lambda>(p, x). P p) (zip ps xs)) = length (filter P ps)"
  by (induction ps xs rule: list_induct2') auto

lemma fill_groups_member:
  assumes "fill_groups groups items = Inr groups'" "distinct (map fst groups)"
    and "(g, players) \<in> set groups'"
  shows "\<exists>xs. (g, xs) \<in> set groups \<and> length players = length xs +
          length (filter (\<lambda>(p, x). p ''POSITION_GROUP'' = Some (Str g)) items)"
proof -
  from assms(3) have "(g, length players) \<in> set (map (\<lambda>(k, xs). (k, length xs)) groups')"
    by force
  then show ?thesis
    unfolding fill_groups_lengths [OF assms(1,2)] by auto
qed

lemma position_pass_small:
  assumes "position_pass groups = Inr ps"
    and "\<forall>players. (g, players) \<in> set groups \<longrightarrow> length players < 3"
  shows "map_of ps g = None"
proof (rule ccontr)
  assume "map_of ps g \<noteq> None"
  then obtain es where "(g, es) \<in> set ps"
    by (auto dest: map_of_SomeD)
  from position_pass_origin [OF assms(1) this] assms(2) show False
    by fastforce
qed

lemma dvibe_without_group:
  assumes "position_stats ls = Some pstats" "map_of pstats g = None"
    and "assign_position_group d = Inr g" "calculate_defensive_per_100_stats d = Inr x"
  shows "calculate_dvibe_z d ls = Inr (Fin 0.0)"
  using assms by (simp add: calculate_dvibe_z_def)

subsection \<open>Shrinkage\<close>


lemma shrink_strict_mono:
  fixes a b :: real
  assumes "0 \<le> a" "a < b"
  shows "a / (a + 600) < b / (b + 600)"
proof -
  have "a * (b + 600) < b * (a + 600)" using assms by (simp add: algebra_simps)
  moreover have "0 < a + 600" "0 < b + 600" using assms by simp_all
  ultimately show ?thesis by (simp add: divide_less_eq less_divide_eq field_simps)
qed

subsection \<open>Rounding, means and standard deviations\<close>



lemma py_round1_100: "py_round1 100 = 100"
  by (simp add: py_round1_def rint_def)

lemma fin_list_Some: "fin_list ys = Some xs \<Longrightarrow> ys = map Fin xs"
  by (induction ys arbitrary: xs rule: fin_list.induct) (auto split: option.splits)

















subsection \<open>The composer's result\<close>

lemma possessions_returns:
  "calculate_player_possessions (get_or0 d k) = Inr p \<Longrightarrow> as_num (get_or0 d k) = Inr (coerced d k)"
  by (auto simp: get_or0_def py_or_def dict_get_def coerced_def calculate_player_possessions_def
      split: option.splits pyval.splits if_splits)

lemma ovibe_returns_minutes:
  "calculate_ovibe_z d league = Inr z \<Longrightarrow> as_num (get_or0 d ''MIN'') = Inr (coerced d ''MIN'')"
  by (auto simp: calculate_ovibe_z_def calculate_per_100_stats_def split: sum.splits
      dest: possessions_returns)

lemma vibe_advanced_result:
  assumes "calculate_ovibe_z d league = Inr ovibe" "calculate_dvibe_z d league = Inr dvibe"
    and "calculate_impact_z d league = Inr impact" and "coerced d ''MIN'' + 600 \<noteq> 0"
  shows "calculate_vibe_advanced d (Some league) =
     Inr (Breakdown
       \<lparr>OVIBE = ovibe, DVIBE = dvibe, Impact = impact, Skill = skill_of ovibe dvibe,
        VIBE_raw = raw_of ovibe dvibe impact,
        VIBE_shrunk = np_mul (raw_of ovibe dvibe impact)
                        (Fin (coerced d ''MIN'' / (coerced d ''MIN'' + 600))),
        minutes = coerced d ''MIN'',
        shrink_factor = coerced d ''MIN'' / (coerced d ''MIN'' + 600), VIBE = None\<rparr>)"
  using assms ovibe_returns_minutes [OF assms(1)]
  by (simp add: calculate_vibe_advanced_def skill_of_def raw_of_def Let_def)

lemma components_600_minutes:
  "calculate_ovibe_z [''MIN'' \<mapsto> Num 600, ''PTS'' \<mapsto> Num 300] unit_league = Inr (Fin 144)"
  "calculate_dvibe_z [''MIN'' \<mapsto> Num 600, ''PTS'' \<mapsto> Num 300] unit_league = Inr (Fin 0)"
  "calculate_impact_z [''MIN'' \<mapsto> Num 600, ''PTS'' \<mapsto> Num 300] unit_league = Inr (Fin 0)"
  by (simp_all add: eval_defs unit_league_def)

lemma components_1200_minutes:
  "calculate_ovibe_z [''MIN'' \<mapsto> Num 1200, ''PTS'' \<mapsto> Num 600] unit_league = Inr (Fin 144)"
  "calculate_dvibe_z [''MIN'' \<mapsto> Num 1200, ''PTS'' \<mapsto> Num 600] unit_league = Inr (Fin 0)"
  "calculate_impact_z [''MIN'' \<mapsto> Num 1200, ''PTS'' \<mapsto> Num 600] unit_league = Inr (Fin 0)"
  by (simp_all add: eval_defs unit_league_def)

subsection \<open>The classifier on numbers\<close>

lemma classifier_on_numbers:
  assumes "dict_get d ''OREB'' (Num 0) = Num oreb" "dict_get d ''DREB'' (Num 0) = Num dreb"
    and "dict_get d ''AST'' (Num 0) = Num ast" "dict_get d ''GP'' (Num 1) = Num gp"
  shows "assign_position_group d =
           Inr (if (oreb + dreb) / max gp 1 \<ge> 7.0 then ''BIG''
                else if ast / max gp 1 \<ge> 4.0 then ''GUARD'' else ''WING'')"
  using assms by (auto simp add: assign_position_group_def py_max_def max_def Let_def)

subsection \<open>The normalizer\<close>

lemma normalizer_finite:
  fixes rs :: "('a vibe_result_scheme) list"
  assumes "rs \<noteq> []" "fin_list (map VIBE_shrunk rs) = Some xs"
  shows "map VIBE (calculate_final_vibe_scores ar rs) =
           map (\<lambda>x. Some (Fin (fround1 ar (computed_score ar xs x)))) xs"
proof -
  have sh: "map VIBE_shrunk rs = map Fin xs"
    using fin_list_Some [OF assms(2)] .
  then have "length xs = length rs"
    by (metis length_map)
  with assms(1) have ne: "xs \<noteq> []" by auto
  let ?s = "if fstd ar xs \<le> 0 then 1.0 else fstd ar xs"
  have s0: "?s \<noteq> 0" by simp
  have m: "np_mean_f ar (map VIBE_shrunk rs) = Fin (fmean ar xs)"
    using ne assms(2) by (simp add: np_mean_f_def)
  have s: "floor_std (np_std_f ar (map VIBE_shrunk rs)) = Fin ?s"
    using ne assms(2) by (simp add: np_std_f_def floor_std_def)
  have step: "np_round1 ar (fl_op ar (\<lambda>x y. x + y) (Fin 100)
                 (fl_div ar (fl_op ar (\<lambda>x y. x * y) (Fin 15)
                    (fl_op ar (\<lambda>x y. x - y) (Fin x) (Fin (fmean ar xs)))) (Fin ?s)))
      = Fin (fround1 ar (computed_score ar xs x))" for x
    using s0 by (simp add: computed_score_def fl_op_def fl_div_def np_round1_def)
  have "map VIBE (calculate_final_vibe_scores ar rs) =
        map (\<lambda>v. Some (np_round1 ar (fl_op ar (\<lambda>x y. x + y) (Fin 100)
                 (fl_div ar (fl_op ar (\<lambda>x y. x * y) (Fin 15)
                    (fl_op ar (\<lambda>x y. x - y) v (Fin (fmean ar xs)))) (Fin ?s)))))
          (map VIBE_shrunk rs)"
    using assms(1) unfolding calculate_final_vibe_scores_def Let_def m s
    by (simp add: comp_def)
  also have "\<dots> = map (\<lambda>x. Some (Fin (fround1 ar (computed_score ar xs x)))) xs"
    by (simp only: sh map_map comp_def step)
  finally show ?thesis .
qed

lemma normalizer_nan:
  fixes rs :: "('a vibe_result_scheme) list"
  assumes "rs \<noteq> []" "fin_list (map VIBE_shrunk rs) = None"
  shows "map VIBE (calculate_final_vibe_scores ar rs) = map (\<lambda>r. Some NaN) rs"
  using assms
  by (simp add: calculate_final_vibe_scores_def Let_def np_mean_f_def np_std_f_def floor_std_def
      fl_op_def fl_div_def np_round1_def comp_def split: npfloat.splits)

lemma normalizer_frame:
  fixes rs :: "('a vibe_result_scheme) list"
  shows "map (\<lambda>r. r\<lparr>VIBE := None\<rparr>) (calculate_final_vibe_scores ar rs) = map (\<lambda>r. r\<lparr>VIBE := None\<rparr>) rs"
  by (simp add: calculate_final_vibe_scores_def Let_def comp_def)





section \<open>Rate converter: possessions and per-100 rates\<close>

text \<open>
  Claim C5. The possessions estimate is \<open>minutes * 100 / 240\<close> for positive minutes and
  1 otherwise (also for \<^verbatim>\<open>None\<close>), and for a stat line whose fields are numbers,
  \<^verbatim>\<open>None\<close> or absent, every per-100 rate is the field read as the specification reads
  it, times 100, divided by the possessions. With 240 minutes and 20 points the
  possessions are 100 and \<^verbatim>\<open>PTS100\<close> is 20; with 0 minutes and 10 points
  \<^verbatim>\<open>PTS100\<close> is 1000.
\<close>

theorem per_100_rates:
  "calculate_player_possessions (Num m) = Inr (if m > 0 then m * 100 / 240 else 1) \<and>
   calculate_player_possessions PNone = Inr 1 \<and>
   ((\<forall>k \<in> set (''MIN'' # map snd per_100_keys). numeric_or_missing d k) \<longrightarrow>
      calculate_per_100_stats d =
        Inr (map (\<lambda>(out, k). (out, coerced d k * 100 /
                     (if coerced d ''MIN'' > 0 then coerced d ''MIN'' * 100 / 240 else 1)))
               per_100_keys))"
proof (intro conjI impI)
  show "calculate_player_possessions (Num m) = Inr (if m > 0 then m * 100 / 240 else 1)"
    by (simp add: calculate_player_possessions_def)
  show "calculate_player_possessions PNone = Inr 1"
    by (simp add: calculate_player_possessions_def)
next
  assume a: "\<forall>k \<in> set (''MIN'' # map snd per_100_keys). numeric_or_missing d k"
  then have m: "numeric_or_missing d ''MIN''"
    and ks: "\<forall>k \<in> set (map snd per_100_keys). numeric_or_missing d k"
    by simp_all
  let ?poss = "if coerced d ''MIN'' > 0 then coerced d ''MIN'' * 100 / 240 else 1"
  have pos: "\<not> ?poss \<le> 0" by simp
  show "calculate_per_100_stats d =
        Inr (map (\<lambda>(out, k). (out, coerced d k * 100 / ?poss)) per_100_keys)"
    unfolding calculate_per_100_stats_def possessions_get_or0 [OF m]
    using pos rate_entries_ok [OF ks, of ?poss] by simp
qed

theorem per_100_rates_witness:
  "calculate_player_possessions (Num 240) = Inr 100 \<and>
   calculate_per_100_stats [''MIN'' \<mapsto> Num 240, ''PTS'' \<mapsto> Num 20] =
     Inr [(''PTS100'', 20), (''AST100'', 0), (''ORB100'', 0), (''DRB100'', 0), (''STL100'', 0),
          (''BLK100'', 0), (''TOV100'', 0), (''PF100'', 0), (''PM100'', 0)] \<and>
   calculate_per_100_stats [''MIN'' \<mapsto> Num 0, ''PTS'' \<mapsto> Num 10] =
     Inr [(''PTS100'', 1000), (''AST100'', 0), (''ORB100'', 0), (''DRB100'', 0), (''STL100'', 0),
          (''BLK100'', 0), (''TOV100'', 0), (''PF100'', 0), (''PM100'', 0)]"
  using per_100_rates [of 240 "[''MIN'' \<mapsto> Num 240, ''PTS'' \<mapsto> Num 20]"]
    per_100_rates [of 0 "[''MIN'' \<mapsto> Num 0, ''PTS'' \<mapsto> Num 10]"]
  by (simp add: numeric_or_missing_def coerced_def per_100_keys_def)

section \<open>Rate converter: true shooting\<close>

text \<open>
  Claim C10. For a stat line whose points, field-goal attempts and free-throw attempts
  are numbers, \<^verbatim>\<open>None\<close> or absent, true shooting is \<open>PTS / (2 * (FGA + 0.44 * FTA))\<close>
  when \<open>FGA + 0.44 * FTA > 0\<close> and 0.0 otherwise; with no attempts at all it is 0.0,
  a value and not an exception.
\<close>

theorem true_shooting_formula:
  assumes "numeric_or_missing d ''PTS''" "numeric_or_missing d ''FGA''"
    "numeric_or_missing d ''FTA''"
  shows "calculate_true_shooting d =
     Inr (if coerced d ''FGA'' + 0.44 * coerced d ''FTA'' > 0
          then coerced d ''PTS'' / (2 * (coerced d ''FGA'' + 0.44 * coerced d ''FTA''))
          else 0.0)"
  using assms by (simp add: calculate_true_shooting_def as_num_get_or0 Let_def)

theorem true_shooting_formula_witness:
  "calculate_true_shooting [''PTS'' \<mapsto> Num 12, ''FGA'' \<mapsto> Num 0, ''FTA'' \<mapsto> Num 0] = Inr 0 \<and>
   calculate_true_shooting [''PTS'' \<mapsto> Num 20, ''FGA'' \<mapsto> Num 10, ''FTA'' \<mapsto> PNone] = Inr 1"
  using true_shooting_formula [of "[''PTS'' \<mapsto> Num 12, ''FGA'' \<mapsto> Num 0, ''FTA'' \<mapsto> Num 0]"]
    true_shooting_formula [of "[''PTS'' \<mapsto> Num 20, ''FGA'' \<mapsto> Num 10, ''FTA'' \<mapsto> PNone]"]
  by (simp add: numeric_or_missing_def coerced_def)

section \<open>Reference distributions: the floor of the standard deviations\<close>

text \<open>
  Claim C1, as the specification states it: every league-wide standard deviation in the
  builder's result is at least 1.0. The builder floors the league-wide standard
  deviations with \<^verbatim>\<open>max(np.std(values), 0.1)\<close>, as it does the position-scoped ones: for a
  single player with 300 minutes every league-wide standard deviation is 0.1.
\<close>

theorem league_std_floor_counterexample:
  "calculate_position_based_z_scores [[''MIN'' \<mapsto> Num 300]] 200 =
     Inr (lone_league, [[''MIN'' \<mapsto> Num 300, ''POSITION_GROUP'' \<mapsto> Str ''WING'']]) \<and>
   map_of (entries lone_league) ''TS_std'' = Some (Fin 0.1) \<and>
   \<not> std_floor_ok 1.0 (entries lone_league)"
  using builder_lone_player
  by (simp add: lone_league_def std_floor_ok_def is_std_key_def)

text \<open>
  Claim C1, amended: for every non-empty population on which the builder returns, the
  league-wide distribution has exactly the six means and six standard deviations, every
  \<^verbatim>\<open>'<stat>_std'\<close> value of it is a number not below 0.1, and so is every
  \<^verbatim>\<open>'<stat>_std'\<close> value of every position group's distribution.
\<close>

theorem league_std_floor:
  assumes "calculate_position_based_z_scores ps mm = Inr (ls, ps')" and "ps \<noteq> []"
  shows "map fst (entries ls) = league_keys \<and> std_floor_ok 0.1 (entries ls) \<and>
         (\<forall>pstats. position_stats ls = Some pstats \<longrightarrow> list_all (\<lambda>(pos, es). std_floor_ok 0.1 es) pstats)"
proof -
  from assms(1) obtain qs all_def_100 all_per_100 all_ts groups pstats off_arrays where
    q: "qualified_players ps mm = Inr (ps', qs)"
    and "map_err calculate_defensive_per_100_stats qs = Inr all_def_100"
    and r: "map_err calculate_per_100_stats qs = Inr all_per_100"
    and t: "map_err calculate_true_shooting qs = Inr all_ts"
    and pp: "position_pass groups = Inr pstats"
    and c: "columns off_stat_names all_per_100 = Inr off_arrays"
    and ls: "ls = \<lparr>entries = dist_entries 0.1 ((''TS'', all_ts) # off_arrays), position_stats = Some pstats\<rparr>"
    by (rule builder_parts)
  have ne: "qs \<noteq> []"
    using qualified_players_nonempty [OF q assms(2)] .
  have lt: "all_ts \<noteq> []" "all_per_100 \<noteq> []"
    using map_err_length [OF t] map_err_length [OF r] ne by auto
  have shape: "map fst off_arrays = off_stat_names"
    "\<forall>(s, vs) \<in> set off_arrays. length vs = length all_per_100"
    using columns_shape [OF c] by simp_all
  have "\<forall>(s, vs) \<in> set ((''TS'', all_ts) # off_arrays). vs \<noteq> []"
    using shape(2) lt by fastforce
  then have fl: "std_floor_ok 0.1 (entries ls)"
    unfolding ls by (simp only: league_stats.simps dist_entries_floor)
  have "map (\<lambda>(s, vs). [s @ ''_mean'', s @ ''_std'']) off_arrays
        = map (\<lambda>s. [s @ ''_mean'', s @ ''_std'']) (map fst off_arrays)"
    by (simp add: case_prod_unfold)
  then have keys: "map fst (entries ls) = league_keys"
    unfolding ls by (simp add: dist_entries_keys shape(1) off_stat_names_def league_keys_def)
  have "list_all (\<lambda>(pos, es). std_floor_ok 0.1 es) pstats"
    using position_pass_floor [OF pp] by (auto simp: list_all_iff)
  with fl keys show ?thesis
    by (simp add: ls)
qed

theorem league_std_floor_witness:
  "std_floor_ok 0.1 (entries trio_league) \<and>
   (case position_stats trio_league of
      None \<Rightarrow> False
    | Some pstats \<Rightarrow> list_all (\<lambda>(pos, es). std_floor_ok 0.1 es) pstats)"
  using league_std_floor [OF builder_trio]
  by (simp add: trio_league_def)

section \<open>Position groups with fewer than three qualified members\<close>

text \<open>
  Claim C7. When fewer than three qualified players carry the position group \<open>g\<close>, the
  builder's result has no defensive distribution for \<open>g\<close>, and for every player that the
  classifier puts into \<open>g\<close> (and whose defensive rates can be computed) the composer
  takes the four defensive z-scores as 0.0: the player's DVIBE is 0.0, no exception is
  raised and no league-wide distribution is used.
\<close>

theorem small_group_no_distribution:
  assumes "calculate_position_based_z_scores ps mm = Inr (ls, ps')"
    and "qualified_players ps mm = Inr (ps'', qs)"
    and "group_size g qs < 3"
    and "assign_position_group d = Inr g"
    and "calculate_defensive_per_100_stats d = Inr x"
  shows "(\<exists>pstats. position_stats ls = Some pstats \<and> map_of pstats g = None) \<and>
         calculate_dvibe_z d ls = Inr (Fin 0.0)"
proof -
  from assms(1) obtain qs0 all_def_100 all_per_100 all_ts groups pstats off_arrays where
    q: "qualified_players ps mm = Inr (ps', qs0)"
    and d: "map_err calculate_defensive_per_100_stats qs0 = Inr all_def_100"
    and r: "map_err calculate_per_100_stats qs0 = Inr all_per_100"
    and t: "map_err calculate_true_shooting qs0 = Inr all_ts"
    and f: "fill_groups [(''GUARD'', []), (''WING'', []), (''BIG'', [])]
       (zip qs0 (map (\<lambda>(d, r, t). \<lparr>def_stats = d, per_100 = r, ts = t\<rparr>)
                   (zip all_def_100 (zip all_per_100 all_ts)))) = Inr groups"
    and pp: "position_pass groups = Inr pstats"
    and ls: "ls = \<lparr>entries = dist_entries 0.1 ((''TS'', all_ts) # off_arrays), position_stats = Some pstats\<rparr>"
    by (rule builder_parts)
  from q assms(2) have qs: "qs0 = qs" by simp
  let ?xs = "map (\<lambda>(d, r, t). \<lparr>def_stats = d, per_100 = r, ts = t\<rparr>)
                   (zip all_def_100 (zip all_per_100 all_ts))"
  have len: "length ?xs = length qs"
    using map_err_length [OF d] map_err_length [OF r] map_err_length [OF t] qs by simp
  have small: "length players < 3" if "(g, players) \<in> set groups" for players
  proof -
    from fill_groups_member [OF f _ that] obtain xs where
      xs: "(g, xs) \<in> set [(''GUARD'', [] :: group_entry list), (''WING'', []), (''BIG'', [])]"
      and l: "length players = length xs +
          length (filter (\<lambda>(p, x). p ''POSITION_GROUP'' = Some (Str g)) (zip qs0 ?xs))"
      by auto
    from xs have "xs = []" by auto
    with l have "length players = group_size g qs"
      unfolding qs group_size_def using filter_zip_fst [OF len] by simp
    with assms(3) show ?thesis by simp
  qed
  have none: "map_of pstats g = None"
    using position_pass_small [OF pp] small by blast
  have ps: "position_stats ls = Some pstats"
    by (simp add: ls)
  from dvibe_without_group [OF ps none assms(4,5)] ps none show ?thesis
    by simp
qed

theorem small_group_no_distribution_witness:
  "map_of (case position_stats trio_league of None \<Rightarrow> [] | Some pstats \<Rightarrow> pstats) ''GUARD'' = None \<and>
   calculate_dvibe_z [''MIN'' \<mapsto> Num 300, ''AST'' \<mapsto> Num 5] trio_league = Inr (Fin 0)"
  using small_group_no_distribution [OF builder_trio qualified_trio,
      of "''GUARD''" "[''MIN'' \<mapsto> Num 300, ''AST'' \<mapsto> Num 5]"
         "[(''DRB100'', 0), (''STL100'', 0), (''BLK100'', 0), (''PF100'', 0)]"]
  by (simp add: group_size_def wing_tagged_def eval_defs trio_league_def)

section \<open>The caller's stat lines\<close>

text \<open>
  Claim C3 says that the pipeline never writes into the caller's stat lines. The first
  loop of the builder stores \<^verbatim>\<open>p['POSITION_GROUP']\<close> into every qualified player's own
  dictionary (the fallback for an empty qualified list copies the dictionary instead):
  after the call, the one player of this population has a field that the caller never
  gave it.
\<close>

theorem builder_writes_input:
  "calculate_position_based_z_scores [[''MIN'' \<mapsto> Num 300]] 200 =
     Inr (lone_league, [[''MIN'' \<mapsto> Num 300, ''POSITION_GROUP'' \<mapsto> Str ''WING'']]) \<and>
   [''MIN'' \<mapsto> Num 300] ''POSITION_GROUP'' = None \<and>
   [''MIN'' \<mapsto> Num 300, ''POSITION_GROUP'' \<mapsto> Str ''WING''] ''POSITION_GROUP'' = Some (Str ''WING'')"
  using builder_lone_player by simp

section \<open>Exceptions that reach the caller\<close>

text \<open>
  Claim C2 says that no core operation raises, whatever the input. A field that is
  present and \<^verbatim>\<open>None\<close> raises \<^verbatim>\<open>TypeError\<close> in the position classifier, and so in
  the builder and in the composer; without league statistics the composer calls a
  function that does not exist and raises \<^verbatim>\<open>NameError\<close> for every player with positive
  minutes; and -600 minutes make the shrink factor divide by zero.
\<close>

theorem raises_to_caller:
  "assign_position_group [''MIN'' \<mapsto> Num 500, ''OREB'' \<mapsto> PNone] = Inl TypeError \<and>
   calculate_position_based_z_scores [[''MIN'' \<mapsto> Num 500, ''OREB'' \<mapsto> PNone]] 200 = Inl TypeError \<and>
   calculate_vibe_advanced [''MIN'' \<mapsto> Num 500, ''OREB'' \<mapsto> PNone] (Some unit_league) = Inl TypeError \<and>
   calculate_vibe_advanced [''MIN'' \<mapsto> Num 500] None = Inl NameError \<and>
   calculate_vibe_advanced [''MIN'' \<mapsto> Num (-600)] (Some unit_league) = Inl ZeroDivisionError"
  by (simp add: builder_defs eval_defs unit_league_def calculate_vibe_box_score_def)

section \<open>Position classifier\<close>

text \<open>
  Claim C6 says that the classifier returns exactly one of the three groups for every
  stat line. On rebounds, assists and games played that are numbers it does what the
  claim describes (lemma \<open>classifier_on_numbers\<close>; the last line below is the priority of
  the rebound test). But it reads its fields without \<^verbatim>\<open>or 0\<close>: a field that is present
  and \<^verbatim>\<open>None\<close> makes it raise \<^verbatim>\<open>TypeError\<close>, so it returns no group at all.
\<close>

theorem classifier_raises_on_none:
  "assign_position_group [''OREB'' \<mapsto> PNone] = Inl TypeError \<and>
   assign_position_group [''DREB'' \<mapsto> PNone] = Inl TypeError \<and>
   assign_position_group [''AST'' \<mapsto> PNone] = Inl TypeError \<and>
   assign_position_group [''GP'' \<mapsto> PNone] = Inl TypeError \<and>
   assign_position_group
     [''OREB'' \<mapsto> Num 3, ''DREB'' \<mapsto> Num 5, ''AST'' \<mapsto> Num 5, ''GP'' \<mapsto> Num 1] = Inr ''BIG''"
  by (simp add: assign_position_group_def dict_get_def py_max_def)

section \<open>Minutes shrinkage\<close>

text \<open>
  Claim C8. Whenever the three component z-scores of a player can be computed and the
  player's minutes are not -600, the composer returns the breakdown whose minutes are the
  player's \<^verbatim>\<open>MIN\<close> (absent or \<^verbatim>\<open>None\<close> read as 0), whose shrink factor is
  \<open>minutes / (minutes + 600)\<close> and whose shrunk composite is the raw composite times the
  shrink factor. At 600 minutes the shrunk composite is the raw composite times 0.5. Of two
  players with the same positive raw composite, the one with more minutes (the fewer being
  at least 0) has the strictly greater shrunk composite.
\<close>

theorem minutes_shrinkage:
  assumes "calculate_ovibe_z d1 league1 = Inr o1" "calculate_dvibe_z d1 league1 = Inr dv1"
    and "calculate_impact_z d1 league1 = Inr i1" and "coerced d1 ''MIN'' + 600 \<noteq> 0"
    and "calculate_ovibe_z d2 league2 = Inr o2" "calculate_dvibe_z d2 league2 = Inr dv2"
    and "calculate_impact_z d2 league2 = Inr i2" and "coerced d2 ''MIN'' + 600 \<noteq> 0"
  shows "calculate_vibe_advanced d1 (Some league1) =
     Inr (Breakdown
       \<lparr>OVIBE = o1, DVIBE = dv1, Impact = i1, Skill = skill_of o1 dv1,
        VIBE_raw = raw_of o1 dv1 i1,
        VIBE_shrunk = np_mul (raw_of o1 dv1 i1)
                        (Fin (coerced d1 ''MIN'' / (coerced d1 ''MIN'' + 600))),
        minutes = coerced d1 ''MIN'',
        shrink_factor = coerced d1 ''MIN'' / (coerced d1 ''MIN'' + 600), VIBE = None\<rparr>) \<and>
     (coerced d1 ''MIN'' = 600 \<longrightarrow>
        shrunk_of (calculate_vibe_advanced d1 (Some league1)) = np_mul (raw_of o1 dv1 i1) (Fin 0.5)) \<and>
     (raw_of o1 dv1 i1 = raw_of o2 dv2 i2 \<and> np_less (Fin 0) (raw_of o1 dv1 i1) \<and>
      0 \<le> coerced d1 ''MIN'' \<and> coerced d1 ''MIN'' < coerced d2 ''MIN'' \<longrightarrow>
        np_less (shrunk_of (calculate_vibe_advanced d1 (Some league1)))
                (shrunk_of (calculate_vibe_advanced d2 (Some league2))))"
proof (intro conjI impI)
  note r1 = vibe_advanced_result [OF assms(1-4)]
  note r2 = vibe_advanced_result [OF assms(5-8)]
  show "calculate_vibe_advanced d1 (Some league1) =
     Inr (Breakdown
       \<lparr>OVIBE = o1, DVIBE = dv1, Impact = i1, Skill = skill_of o1 dv1,
        VIBE_raw = raw_of o1 dv1 i1,
        VIBE_shrunk = np_mul (raw_of o1 dv1 i1)
                        (Fin (coerced d1 ''MIN'' / (coerced d1 ''MIN'' + 600))),
        minutes = coerced d1 ''MIN'',
        shrink_factor = coerced d1 ''MIN'' / (coerced d1 ''MIN'' + 600), VIBE = None\<rparr>)"
    by (rule r1)
  show "shrunk_of (calculate_vibe_advanced d1 (Some league1)) = np_mul (raw_of o1 dv1 i1) (Fin 0.5)"
    if "coerced d1 ''MIN'' = 600"
    unfolding r1 using that by (simp add: shrunk_of_def)
  assume h: "raw_of o1 dv1 i1 = raw_of o2 dv2 i2 \<and> np_less (Fin 0) (raw_of o1 dv1 i1) \<and>
      0 \<le> coerced d1 ''MIN'' \<and> coerced d1 ''MIN'' < coerced d2 ''MIN''"
  let ?m1 = "coerced d1 ''MIN''" and ?m2 = "coerced d2 ''MIN''"
  from h have pos: "np_less (Fin 0) (raw_of o1 dv1 i1)" and eq: "raw_of o1 dv1 i1 = raw_of o2 dv2 i2"
    and m: "0 \<le> ?m1" "?m1 < ?m2"
    by blast+
  from pos obtain v where v1: "raw_of o1 dv1 i1 = Fin v" and vpos: "0 < v"
    by (cases "raw_of o1 dv1 i1") simp_all
  from eq v1 have v2: "raw_of o2 dv2 i2 = Fin v"
    by simp
  have "?m1 / (?m1 + 600) < ?m2 / (?m2 + 600)"
    using m by (rule shrink_strict_mono)
  then have "v * (?m1 / (?m1 + 600)) < v * (?m2 / (?m2 + 600))"
    using vpos by (intro mult_strict_left_mono) simp_all
  then show "np_less (shrunk_of (calculate_vibe_advanced d1 (Some league1)))
                (shrunk_of (calculate_vibe_advanced d2 (Some league2)))"
    unfolding r1 r2 by (simp add: shrunk_of_def v1 v2)
qed

theorem minutes_shrinkage_witness:
  "calculate_vibe_advanced [''MIN'' \<mapsto> Num 600, ''PTS'' \<mapsto> Num 300] (Some unit_league) =
     Inr (Breakdown \<lparr>OVIBE = Fin 144, DVIBE = Fin 0, Impact = Fin 0, Skill = Fin 86.4,
                      VIBE_raw = Fin 56.16, VIBE_shrunk = Fin 28.08, minutes = 600,
                      shrink_factor = 1 / 2, VIBE = None\<rparr>) \<and>
   shrunk_of (calculate_vibe_advanced [''MIN'' \<mapsto> Num 600, ''PTS'' \<mapsto> Num 300] (Some unit_league)) =
     Fin 28.08 \<and>
   np_less (shrunk_of (calculate_vibe_advanced [''MIN'' \<mapsto> Num 600, ''PTS'' \<mapsto> Num 300] (Some unit_league)))
           (shrunk_of (calculate_vibe_advanced [''MIN'' \<mapsto> Num 1200, ''PTS'' \<mapsto> Num 600] (Some unit_league)))"
proof -
  have m1: "coerced [''MIN'' \<mapsto> Num 600, ''PTS'' \<mapsto> Num 300] ''MIN'' + 600 \<noteq> 0"
    and m2: "coerced [''MIN'' \<mapsto> Num 1200, ''PTS'' \<mapsto> Num 600] ''MIN'' + 600 \<noteq> 0"
    by (simp_all add: coerced_def)
  show ?thesis
    using minutes_shrinkage [OF components_600_minutes m1 components_1200_minutes m2]
    by (auto simp add: coerced_def skill_of_def raw_of_def shrunk_of_def)
qed

section \<open>League normalizer\<close>

text \<open>
  Claim C9, for every floating-point arithmetic. The normalizer returns an empty list as
  it is. On any list it returns the same results with no field but \<^verbatim>\<open>VIBE\<close> changed.
  When the list is not empty and its shrunk composites are numbers, the \<^verbatim>\<open>VIBE\<close> of each
  result is \<open>100 + 15 * (VIBE_shrunk - mean) / std\<close> as the doubles compute it, rounded to
  one decimal place, where mean and std are numpy's mean and standard deviation of the
  shrunk composites and a standard deviation that is not positive is replaced by 1.0.
  When one of the shrunk composites is \<^verbatim>\<open>nan\<close>, every \<^verbatim>\<open>VIBE\<close> is \<^verbatim>\<open>nan\<close>.
\<close>

theorem league_normalizer:
  fixes rs :: "('a vibe_result_scheme) list"
  shows "calculate_final_vibe_scores ar ([] :: ('a vibe_result_scheme) list) = [] \<and>
    map (\<lambda>r. r\<lparr>VIBE := None\<rparr>) (calculate_final_vibe_scores ar rs) = map (\<lambda>r. r\<lparr>VIBE := None\<rparr>) rs \<and>
    (rs \<noteq> [] \<and> fin_list (map VIBE_shrunk rs) = Some xs \<longrightarrow>
       map VIBE (calculate_final_vibe_scores ar rs) =
         map (\<lambda>x. Some (Fin (fround1 ar
                (fl ar (100 + fl ar (fl ar (15 * fl ar (x - fmean ar xs)) /
                          (if fstd ar xs \<le> 0 then 1.0 else fstd ar xs))))))) xs) \<and>
    (rs \<noteq> [] \<and> fin_list (map VIBE_shrunk rs) = None \<longrightarrow>
       map VIBE (calculate_final_vibe_scores ar rs) = map (\<lambda>r. Some NaN) rs)"
  using normalizer_finite [of rs xs ar] normalizer_frame [of ar rs] normalizer_nan [of rs ar]
  by (simp add: computed_score_def calculate_final_vibe_scores_def)

theorem league_normalizer_witness:
  "map VIBE (calculate_final_vibe_scores exact_arith [sample_result (Fin 0), sample_result (Fin 2)]) =
     [Some (Fin 85), Some (Fin 115)] \<and>
   map VIBE (calculate_final_vibe_scores exact_arith [sample_result (Fin 0), sample_result NaN]) =
     [Some NaN, Some NaN]"
  using league_normalizer [of exact_arith "[sample_result (Fin 0), sample_result (Fin 2)]" "[0, 2]"]
    league_normalizer [of exact_arith "[sample_result (Fin 0), sample_result NaN]"]
  by (simp add: sample_result_def exact_arith_def std_pair round_vals)

section \<open>The rescale invariant\<close>




end
